theory Spec2Isabelle
  imports Main "HOL-Library.Multiset" "HOL-Library.Product_Lexorder"
begin

section \<open>Mindful Mornings: the request handlers of server.py over the schema of model.py\<close>

text \<open>
  The handlers of \<^verbatim>\<open>server.py\<close> are modelled as functions on a \<open>world\<close>: the Flask
  session dictionary, the relational store and the list of flashed messages. A handler
  returns the response or the exception that escapes it, together with the world it
  leaves behind. The store is the PostgreSQL database behind Flask-SQLAlchemy; every
  table of \<^verbatim>\<open>model.py\<close> is a list of rows in storage order, and the store enforces
  the constraints the model declares (primary keys, \<^verbatim>\<open>nullable=False\<close>,
  \<^verbatim>\<open>unique=True\<close>, foreign keys, the length of \<^verbatim>\<open>String(n)\<close>). The
  templates are not among the sources: a rendering is the name of the template with
  the context passed to it.
\<close>

subsection \<open>Exceptions\<close>

datatype error =
    KeyError
  | TypeError
  | AttributeError
  | UnboundLocalError
  | ValueError
  | AssertionError
  | UnmappedInstanceError
  | NoResultFound
  | MultipleResultsFound
  | IntegrityError
  | DataError

subsection \<open>The entities of model.py\<close>

text \<open>
  One record per mapped class, one field per column. A column declared
  \<^verbatim>\<open>nullable=False\<close> (or a primary key) holds a value, any other column an option.
  Field names are the column names; where two classes share a column name the later
  ones carry a prefix. \<^verbatim>\<open>DateTime\<close> values are points in time, taken as integers.
\<close>

record user =
  user_id :: int
  username :: string
  password :: string
  home_address :: "string option"
  destination_address :: "string option"

record setting =
  setting_id :: int
  setting_name :: "string option"

record user_setting =
  user_setting_id :: int
  us_user_id :: int
  us_setting_id :: int
  us_value :: string

record task =
  task_id :: int
  task_user_id :: int
  task_name :: string
  task_description :: "string option"
  duration_estimate :: int
  duration_actual :: "int option"

record gameplan_task =
  gp_task_id :: int
  gp_user_id :: int
  gp_order :: "int option"
  start_time :: "int option"
  end_time :: "int option"

record category =
  category_id :: int
  category_name :: string

record task_category =
  tasks_categories_id :: int
  tc_task_id :: int
  tc_category_id :: "int option"

text \<open>
  The store: the seven tables and the sequences behind the autoincrement keys that the
  handlers insert into.
\<close>

record database =
  users :: "user list"
  settings :: "setting list"
  users_settings :: "user_setting list"
  tasks :: "task list"
  gameplan_tasks :: "gameplan_task list"
  categories :: "category list"
  tasks_categories :: "task_category list"
  users_user_id_seq :: int
  users_settings_user_setting_id_seq :: int
  tasks_task_id_seq :: int

text \<open>
  The session dictionary holds at most the key \<^verbatim>\<open>'user'\<close>, whose value is a user id
  or Python's \<^verbatim>\<open>None\<close>. Reading a key that is absent raises \<^verbatim>\<open>KeyError\<close>.
\<close>

record world =
  session :: "string \<rightharpoonup> int option"
  store :: database
  flashes :: "string list"

datatype ctxval =
    CNone
  | CStr string
  | CTasks "task list"
  | CGameplanTasks "gameplan_task list"
  | CUserSettings "user_setting list"

datatype response =
    Redirect string
  | Render_template string "(string \<times> ctxval) list"

type_synonym outcome = "(error + response) \<times> world"

definition flash :: "string \<Rightarrow> world \<Rightarrow> world" where
  "flash msg w = w\<lparr>flashes := flashes w @ [msg]\<rparr>"

definition truthy :: "int option \<Rightarrow> bool" where
  "truthy v = (case v of None \<Rightarrow> False | Some i \<Rightarrow> i \<noteq> 0)"

definition ctx_of :: "string option \<Rightarrow> ctxval" where
  "ctx_of v = (case v of None \<Rightarrow> CNone | Some s \<Rightarrow> CStr s)"

subsection \<open>What the driver and the store make of a parameter\<close>

text \<open>
  A path segment or form field reaches the database driver as text. How text is read
  where a statement binds it to an \<^verbatim>\<open>Integer\<close> or \<^verbatim>\<open>DateTime\<close> column, and
  which exception is raised for text that is refused, depends on the versions of the
  driver and the store; so does what Python's \<^verbatim>\<open>int\<close> accepts. None of this is in
  the sources, and the model takes it as a parameter:
  \<^item> \<open>read_int\<close>: the integer that text is read as where a statement binds it to one
    \<^verbatim>\<open>Integer\<close> column, or the exception raised instead;
  \<^item> \<open>read_gameplan_row\<close>: the values that the \<^verbatim>\<open>INSERT\<close> into
    \<^verbatim>\<open>gameplan_tasks\<close> gets for \<^verbatim>\<open>task_id\<close>, \<^verbatim>\<open>order\<close>, \<^verbatim>\<open>start_time\<close>
    and \<^verbatim>\<open>end_time\<close> from the parameters bound to them, or the exception raised
    instead;
  \<^item> \<open>py_int\<close>: the value of \<^verbatim>\<open>int(s)\<close> for a string, \<open>None\<close> where it raises
    \<^verbatim>\<open>ValueError\<close>.
\<close>

record conversions =
  read_int :: "string \<Rightarrow> error + int"
  read_gameplan_row ::
    "string option \<Rightarrow> int \<Rightarrow> string option \<Rightarrow> string option
       \<Rightarrow> error + (int option \<times> int \<times> int option \<times> int option)"
  py_int :: "string \<Rightarrow> int option"

text \<open>
  Text stored into a \<^verbatim>\<open>String(n)\<close> column must fit in \<open>n\<close> characters; excess that
  is all spaces is cut off, any other excess is rejected with \<^verbatim>\<open>DataError\<close>.
\<close>

definition pg_varchar :: "nat \<Rightarrow> string \<Rightarrow> string option" where
  "pg_varchar n s =
     (if length s \<le> n then Some s
      else if list_all (\<lambda>c. c = CHR '' '') (drop n s) then Some (take n s)
      else None)"

subsection \<open>Queries\<close>

text \<open>\<^verbatim>\<open>User.query.get(user_id)\<close> with the session's value: \<^verbatim>\<open>None\<close> finds nothing.\<close>

definition User_query_get :: "int option \<Rightarrow> database \<Rightarrow> user option" where
  "User_query_get ident d =
     (case ident of None \<Rightarrow> None | Some i \<Rightarrow> find (\<lambda>u. user_id u = i) (users d))"

text \<open>\<^verbatim>\<open>User.query.filter_by(username=username).first()\<close>\<close>

definition User_query_filter_by_username_first :: "string option \<Rightarrow> database \<Rightarrow> user option" where
  "User_query_filter_by_username_first name d = find (\<lambda>u. Some (username u) = name) (users d)"

text \<open>\<^verbatim>\<open>Task.query.get(task_id)\<close> with a path segment.\<close>

definition Task_query_get :: "conversions \<Rightarrow> string \<Rightarrow> database \<Rightarrow> error + task option" where
  "Task_query_get cv ident d =
     (case read_int cv ident of
        Inl e \<Rightarrow> Inl e
      | Inr i \<Rightarrow> Inr (find (\<lambda>t. task_id t = i) (tasks d)))"

text \<open>\<^verbatim>\<open>GameplanTask.query.get(task_id)\<close> with a path segment.\<close>

definition GameplanTask_query_get ::
  "conversions \<Rightarrow> string \<Rightarrow> database \<Rightarrow> error + gameplan_task option" where
  "GameplanTask_query_get cv ident d =
     (case read_int cv ident of
        Inl e \<Rightarrow> Inl e
      | Inr i \<Rightarrow> Inr (find (\<lambda>g. gp_task_id g = i) (gameplan_tasks d)))"

text \<open>\<^verbatim>\<open>UserSetting.query.filter_by(user_setting_id=user_setting_id).one()\<close>\<close>

definition UserSetting_query_one ::
  "conversions \<Rightarrow> string \<Rightarrow> database \<Rightarrow> error + user_setting" where
  "UserSetting_query_one cv ident d =
     (case read_int cv ident of
        Inl e \<Rightarrow> Inl e
      | Inr i \<Rightarrow>
          (case filter (\<lambda>r. user_setting_id r = i) (users_settings d) of
             [] \<Rightarrow> Inl NoResultFound
           | [r] \<Rightarrow> Inr r
           | _ \<Rightarrow> Inl MultipleResultsFound))"

text \<open>\<^verbatim>\<open>UserSetting.query.filter_by(user_id=user_id, setting_id=n).first()\<close>\<close>

definition UserSetting_query_first :: "int option \<Rightarrow> int \<Rightarrow> database \<Rightarrow> user_setting option" where
  "UserSetting_query_first uid sid d =
     find (\<lambda>r. Some (us_user_id r) = uid \<and> us_setting_id r = sid) (users_settings d)"

text \<open>
  \<^verbatim>\<open>UserSetting.query.filter_by(user_id=user_id).order_by(UserSetting.user_setting_id).all()\<close>
\<close>

definition UserSetting_query_ordered :: "int option \<Rightarrow> database \<Rightarrow> user_setting list" where
  "UserSetting_query_ordered uid d =
     sort_key user_setting_id (filter (\<lambda>r. Some (us_user_id r) = uid) (users_settings d))"

text \<open>\<^verbatim>\<open>Task.query.filter_by(user_id=user_id).all()\<close>\<close>

definition Task_query_filter_by_user :: "int option \<Rightarrow> database \<Rightarrow> task list" where
  "Task_query_filter_by_user uid d = filter (\<lambda>t. Some (task_user_id t) = uid) (tasks d)"

text \<open>
  \<^verbatim>\<open>GameplanTask.query.filter_by(user_id=user_id).order_by(GameplanTask.order).all()\<close>:
  the user's rows in ascending \<^verbatim>\<open>order\<close>. The column is nullable; the store puts
  rows without an order after all others.
\<close>

definition order_key :: "gameplan_task \<Rightarrow> nat \<times> int" where
  "order_key g = (case gp_order g of None \<Rightarrow> (1, 0) | Some n \<Rightarrow> (0, n))"

definition GameplanTask_query_ordered :: "int option \<Rightarrow> database \<Rightarrow> gameplan_task list" where
  "GameplanTask_query_ordered uid d =
     sort_key order_key (filter (\<lambda>g. Some (gp_user_id g) = uid) (gameplan_tasks d))"

subsection \<open>Inserts, updates and deletes\<close>

text \<open>
  \<^verbatim>\<open>db.session.add(row); db.session.commit()\<close> is one \<^verbatim>\<open>INSERT\<close>. Text that
  does not fit its column is rejected before the statement runs (\<^verbatim>\<open>DataError\<close>).
  Otherwise the key is drawn from the table's sequence, which stays advanced even when
  the row is then refused for a null in a required column, a duplicate key, a duplicate
  of a unique column or a dangling foreign key (\<^verbatim>\<open>IntegrityError\<close>).
\<close>

definition insert_user ::
  "string option \<Rightarrow> string option \<Rightarrow> database \<Rightarrow> (error + user) \<times> database" where
  "insert_user name pw d =
     (case (map_option (pg_varchar 50) name, map_option (pg_varchar 50) pw) of
        (Some None, _) \<Rightarrow> (Inl DataError, d)
      | (_, Some None) \<Rightarrow> (Inl DataError, d)
      | (Some (Some n), Some (Some p)) \<Rightarrow>
          (let i = users_user_id_seq d + 1;
               d1 = d\<lparr>users_user_id_seq := i\<rparr>;
               u = \<lparr>user_id = i, username = n, password = p,
                    home_address = None, destination_address = None\<rparr>
           in if list_ex (\<lambda>r. user_id r = i \<or> username r = n) (users d)
              then (Inl IntegrityError, d1)
              else (Inr u, d1\<lparr>users := users d @ [u]\<rparr>))
      | _ \<Rightarrow> (Inl IntegrityError, d\<lparr>users_user_id_seq := users_user_id_seq d + 1\<rparr>))"

definition insert_user_setting ::
  "int option \<Rightarrow> int option \<Rightarrow> string option \<Rightarrow> database
     \<Rightarrow> (error + user_setting) \<times> database" where
  "insert_user_setting uid sid val d =
     (case map_option (pg_varchar 100) val of
        Some None \<Rightarrow> (Inl DataError, d)
      | v \<Rightarrow>
          (let i = users_settings_user_setting_id_seq d + 1;
               d1 = d\<lparr>users_settings_user_setting_id_seq := i\<rparr>
           in case (uid, sid, v) of
                (Some u, Some s, Some (Some x)) \<Rightarrow>
                  if list_ex (\<lambda>r. user_setting_id r = i) (users_settings d)
                  then (Inl IntegrityError, d1)
                  else if list_ex (\<lambda>r. user_id r = u) (users d)
                          \<and> list_ex (\<lambda>r. setting_id r = s) (settings d)
                  then (let r = \<lparr>user_setting_id = i, us_user_id = u,
                                   us_setting_id = s, us_value = x\<rparr>
                        in (Inr r, d1\<lparr>users_settings := users_settings d @ [r]\<rparr>))
                  else (Inl IntegrityError, d1)
              | _ \<Rightarrow> (Inl IntegrityError, d1)))"

definition insert_task ::
  "conversions \<Rightarrow> int option \<Rightarrow> string option \<Rightarrow> string option \<Rightarrow> database
     \<Rightarrow> (error + task) \<times> database" where
  "insert_task cv uid name estimate d =
     (case (map_option (pg_varchar 50) name, map_option (read_int cv) estimate) of
        (Some None, _) \<Rightarrow> (Inl DataError, d)
      | (_, Some (Inl e)) \<Rightarrow> (Inl e, d)
      | (n, e) \<Rightarrow>
          (let i = tasks_task_id_seq d + 1;
               d1 = d\<lparr>tasks_task_id_seq := i\<rparr>
           in case (uid, n, e) of
                (Some u, Some (Some x), Some (Inr m)) \<Rightarrow>
                  if list_ex (\<lambda>r. task_id r = i) (tasks d)
                  then (Inl IntegrityError, d1)
                  else if list_ex (\<lambda>r. user_id r = u) (users d)
                  then (let t = \<lparr>task_id = i, task_user_id = u, task_name = x,
                                   task_description = None, duration_estimate = m,
                                   duration_actual = None\<rparr>
                        in (Inr t, d1\<lparr>tasks := tasks d @ [t]\<rparr>))
                  else (Inl IntegrityError, d1)
              | _ \<Rightarrow> (Inl IntegrityError, d1)))"

text \<open>
  The \<^verbatim>\<open>INSERT\<close> into \<^verbatim>\<open>gameplan_tasks\<close>. Its key \<^verbatim>\<open>task_id\<close> is a foreign
  key and has no sequence. The row is refused for a missing \<^verbatim>\<open>task_id\<close> or
  \<^verbatim>\<open>user_id\<close>, for a \<^verbatim>\<open>task_id\<close>, \<^verbatim>\<open>order\<close>, \<^verbatim>\<open>start_time\<close> or
  \<^verbatim>\<open>end_time\<close> that another row has (all four are unique; nulls never collide), and
  for a task or user that does not exist.
\<close>

definition insert_gameplan_task ::
  "conversions \<Rightarrow> string option \<Rightarrow> int option \<Rightarrow> int \<Rightarrow> string option \<Rightarrow> string option
     \<Rightarrow> database \<Rightarrow> error + database" where
  "insert_gameplan_task cv tid uid ord start_text end_text d =
     (case read_gameplan_row cv tid ord start_text end_text of
        Inl e \<Rightarrow> Inl e
      | Inr (t, ord', s, e) \<Rightarrow>
          (case (t, uid) of
             (Some i, Some u) \<Rightarrow>
               if list_ex (\<lambda>r. gp_task_id r = i \<or> gp_order r = Some ord'
                                \<or> (s \<noteq> None \<and> start_time r = s)
                                \<or> (e \<noteq> None \<and> end_time r = e)) (gameplan_tasks d)
               then Inl IntegrityError
               else if list_ex (\<lambda>r. task_id r = i) (tasks d)
                       \<and> list_ex (\<lambda>r. user_id r = u) (users d)
               then Inr (d\<lparr>gameplan_tasks := gameplan_tasks d
                            @ [\<lparr>gp_task_id = i, gp_user_id = u, gp_order = Some ord',
                                start_time = s, end_time = e\<rparr>]\<rparr>)
               else Inl IntegrityError
           | _ \<Rightarrow> Inl IntegrityError))"

text \<open>
  \<^verbatim>\<open>db.session.delete(obj); db.session.commit()\<close>. Deleting \<^verbatim>\<open>None\<close> (a lookup
  that found nothing) raises \<^verbatim>\<open>UnmappedInstanceError\<close>. \<^verbatim>\<open>Task\<close> declares the
  relationship \<^verbatim>\<open>gameplan_task\<close> without a delete cascade, so on deleting a task the
  session first tries to detach its gameplan task by blanking that row's
  \<^verbatim>\<open>task_id\<close>; the column is the row's primary key and the attempt raises
  \<^verbatim>\<open>AssertionError\<close> before any statement is sent. The \<^verbatim>\<open>DELETE\<close> itself is
  refused by the store while a row of \<^verbatim>\<open>tasks_categories\<close> references the task.
\<close>

definition session_delete_task :: "task option \<Rightarrow> database \<Rightarrow> error + database" where
  "session_delete_task obj d =
     (case obj of
        None \<Rightarrow> Inl UnmappedInstanceError
      | Some t \<Rightarrow>
          if list_ex (\<lambda>g. gp_task_id g = task_id t) (gameplan_tasks d) then Inl AssertionError
          else if list_ex (\<lambda>c. tc_task_id c = task_id t) (tasks_categories d)
          then Inl IntegrityError
          else Inr (d\<lparr>tasks := filter (\<lambda>r. task_id r \<noteq> task_id t) (tasks d)\<rparr>))"

definition session_delete_gameplan_task ::
  "gameplan_task option \<Rightarrow> database \<Rightarrow> error + database" where
  "session_delete_gameplan_task obj d =
     (case obj of
        None \<Rightarrow> Inl UnmappedInstanceError
      | Some g \<Rightarrow>
          Inr (d\<lparr>gameplan_tasks :=
                   filter (\<lambda>r. gp_task_id r \<noteq> gp_task_id g) (gameplan_tasks d)\<rparr>))"

text \<open>
  \<^verbatim>\<open>user_setting.value = v; db.session.commit()\<close>: an attribute set to the value it
  already has sends nothing; otherwise one \<^verbatim>\<open>UPDATE\<close> of that row, which the store
  refuses for a null (\<^verbatim>\<open>value\<close> is declared \<^verbatim>\<open>nullable=False\<close>) or for text that
  does not fit \<^verbatim>\<open>String(100)\<close>.
\<close>

definition update_value :: "user_setting \<Rightarrow> string option \<Rightarrow> database \<Rightarrow> error + database" where
  "update_value r v d =
     (if v = Some (us_value r) then Inr d
      else case v of
             None \<Rightarrow> Inl IntegrityError
           | Some x \<Rightarrow>
               (case pg_varchar 100 x of
                  None \<Rightarrow> Inl DataError
                | Some y \<Rightarrow>
                    Inr (d\<lparr>users_settings :=
                             map (\<lambda>q. if user_setting_id q = user_setting_id r
                                       then q\<lparr>us_value := y\<rparr> else q)
                                 (users_settings d)\<rparr>)))"

subsection \<open>Constructors and attributes\<close>

text \<open>
  A call with keyword arguments to an \<^verbatim>\<open>__init__\<close> that lists its parameters raises
  \<^verbatim>\<open>TypeError\<close> for a keyword that is no parameter and for a parameter left out.
  \<^verbatim>\<open>User.__init__(self, username, password)\<close> and
  \<^verbatim>\<open>Task.__init__(self, task_name, duration_estimate)\<close> are the two the model
  defines; \<^verbatim>\<open>Task.__init__\<close> sets those two attributes and nothing else.
\<close>

definition bind_keywords :: "string list \<Rightarrow> string list \<Rightarrow> error + unit" where
  "bind_keywords params keywords =
     (if list_all (\<lambda>k. k \<in> set params) keywords \<and> list_all (\<lambda>p. p \<in> set keywords) params
      then Inr () else Inl TypeError)"

definition User_init_params :: "string list" where
  "User_init_params = [''username'', ''password'']"

definition Task_init_params :: "string list" where
  "Task_init_params = [''task_name'', ''duration_estimate'']"

text \<open>
  \<^verbatim>\<open>class Setting\<close> maps the columns \<^verbatim>\<open>setting_id\<close> and \<^verbatim>\<open>setting_name\<close> and
  nothing else: reading \<^verbatim>\<open>setting.setting_default_value\<close> raises
  \<^verbatim>\<open>AttributeError\<close>.
\<close>

definition setting_default_value :: "setting \<Rightarrow> error + string option" where
  "setting_default_value s = Inl AttributeError"

subsection \<open>The handlers of server.py\<close>

text \<open>\<^verbatim>\<open>show_index\<close>: the variable \<^verbatim>\<open>username\<close> is bound on two of the three paths.\<close>

definition show_index :: "world \<Rightarrow> outcome" where
  "show_index w =
     (case session w ''user'' of
        None \<Rightarrow> (Inl KeyError, w)
      | Some v \<Rightarrow>
          (let name = (if truthy v
                       then (case User_query_get v (store w) of
                               Some u \<Rightarrow> Some (username u)
                             | None \<Rightarrow> None)
                       else Some ''friend'')
           in case name of
                None \<Rightarrow> (Inl UnboundLocalError, w)
              | Some n \<Rightarrow> (Inr (Render_template ''index.html'' [(''username'', CStr n)]), w)))"

definition display_registration_form :: "world \<Rightarrow> outcome" where
  "display_registration_form w = (Inr (Render_template ''registration_form.html'' []), w)"

text \<open>\<^verbatim>\<open>execute_user_registration\<close>, with its loop over \<^verbatim>\<open>Setting.query.all()\<close>.\<close>

fun seed_user_settings :: "int \<Rightarrow> setting list \<Rightarrow> database \<Rightarrow> (error + unit) \<times> database" where
  "seed_user_settings uid [] d = (Inr (), d)"
| "seed_user_settings uid (s # ss) d =
     (case setting_default_value s of
        Inl e \<Rightarrow> (Inl e, d)
      | Inr v \<Rightarrow>
          (case insert_user_setting (Some uid) (Some (setting_id s)) v d of
             (Inl e, d') \<Rightarrow> (Inl e, d')
           | (Inr r, d') \<Rightarrow> seed_user_settings uid ss d'))"

definition execute_user_registration :: "(string \<rightharpoonup> string) \<Rightarrow> world \<Rightarrow> outcome" where
  "execute_user_registration form w =
     (let name = form ''username'';
          pw = form ''password'';
          confirm_password = form ''confirm_password''
      in if pw \<noteq> confirm_password
         then (Inr (Redirect ''/register''),
               flash ''Your passwords do not match. Please try again.'' w)
         else
           (case bind_keywords User_init_params [''username'', ''password''] of
              Inl e \<Rightarrow> (Inl e, w)
            | Inr _ \<Rightarrow>
                (case insert_user name pw (store w) of
                   (Inl e, d1) \<Rightarrow> (Inl e, w\<lparr>store := d1\<rparr>)
                 | (Inr u, d1) \<Rightarrow>
                     (case seed_user_settings (user_id u) (settings d1) d1 of
                        (Inl e, d2) \<Rightarrow> (Inl e, w\<lparr>store := d2\<rparr>)
                      | (Inr _, d2) \<Rightarrow>
                          (Inr (Redirect ''/''),
                           flash ''Thank you for registering! Now please login with your credentials.''
                             (w\<lparr>store := d2\<rparr>))))))"

text \<open>
  \<^verbatim>\<open>check_login_credentials\<close>. A \<^verbatim>\<open>User\<close> object is always true and \<^verbatim>\<open>None\<close>
  false, so the branches \<^verbatim>\<open>if user\<close> and \<^verbatim>\<open>elif not user\<close> cover every case and
  the final \<^verbatim>\<open>render_template\<close> is never reached.
\<close>

definition check_login_credentials :: "(string \<rightharpoonup> string) \<Rightarrow> world \<Rightarrow> outcome" where
  "check_login_credentials form w =
     (let name = form ''username'';
          pw = form ''password''
      in case User_query_filter_by_username_first name (store w) of
           Some u \<Rightarrow>
             if Some (password u) = pw
             then (Inr (Redirect ''/''),
                   flash ''You are now logged in.''
                     (w\<lparr>session := (session w)(''user'' \<mapsto> Some (user_id u))\<rparr>))
             else (Inr (Redirect ''/''),
                   flash ''Incorrect login information. Please try again.'' w)
         | None \<Rightarrow>
             (Inr (Redirect ''/''),
              flash ''Your username does not exist. Please try again or register as a new user.'' w))"

definition log_out_user :: "world \<Rightarrow> outcome" where
  "log_out_user w =
     (Inr (Redirect ''/''),
      flash ''You are now logged out.'' (w\<lparr>session := (session w)(''user'' \<mapsto> None)\<rparr>))"

definition task_list :: "world \<Rightarrow> outcome" where
  "task_list w =
     (case session w ''user'' of
        None \<Rightarrow> (Inl KeyError, w)
      | Some uid \<Rightarrow>
          (Inr (Render_template ''dashboard.html''
                  [(''tasks'', CTasks (Task_query_filter_by_user uid (store w)))]), w))"

text \<open>
  \<^verbatim>\<open>add_new_task\<close> calls \<^verbatim>\<open>Task(user_id=..., task_name=..., duration_estimate=...)\<close>.
  Were the call to bind, the object would carry the name and the estimate only.
\<close>

definition add_new_task :: "conversions \<Rightarrow> (string \<rightharpoonup> string) \<Rightarrow> world \<Rightarrow> outcome" where
  "add_new_task cv form w =
     (case session w ''user'' of
        None \<Rightarrow> (Inl KeyError, w)
      | Some uid \<Rightarrow>
          (let name = form ''task_name'';
               estimate = form ''duration_estimate''
           in case bind_keywords Task_init_params
                     [''user_id'', ''task_name'', ''duration_estimate''] of
                Inl e \<Rightarrow> (Inl e, w)
              | Inr _ \<Rightarrow>
                  (case insert_task cv None name estimate (store w) of
                     (Inl e, d) \<Rightarrow> (Inl e, w\<lparr>store := d\<rparr>)
                   | (Inr t, d) \<Rightarrow> (Inr (Redirect ''/dashboard''), w\<lparr>store := d\<rparr>))))"

text \<open>\<^verbatim>\<open>delete_task_from_task_list\<close>: the \<^verbatim>\<open>try\<close> catches \<^verbatim>\<open>AssertionError\<close> only.\<close>

definition delete_task_from_task_list :: "conversions \<Rightarrow> string \<Rightarrow> world \<Rightarrow> outcome" where
  "delete_task_from_task_list cv ident w =
     (case (case Task_query_get cv ident (store w) of
              Inl e \<Rightarrow> Inl e
            | Inr task_to_delete \<Rightarrow> session_delete_task task_to_delete (store w)) of
        Inl e \<Rightarrow>
          if e = AssertionError
          then (Inr (Redirect ''/dashboard''),
                flash ''That task is active in your gameplan! Remove that task from gameplan before deleting from templates.'' w)
          else (Inl e, w)
      | Inr d \<Rightarrow> (Inr (Redirect ''/dashboard''), w\<lparr>store := d\<rparr>))"

text \<open>\<^verbatim>\<open>show_user_settings\<close>: as on the dashboard, \<^verbatim>\<open>user.username\<close> of \<^verbatim>\<open>None\<close> raises.\<close>

definition show_user_settings :: "world \<Rightarrow> outcome" where
  "show_user_settings w =
     (case session w ''user'' of
        None \<Rightarrow> (Inl KeyError, w)
      | Some v \<Rightarrow>
          if truthy v
          then (case User_query_get v (store w) of
                  None \<Rightarrow> (Inl AttributeError, w)
                | Some u \<Rightarrow>
                    (Inr (Render_template ''user_settings.html''
                            [(''username'', CStr (username u)),
                             (''user_settings'',
                              CUserSettings (UserSetting_query_ordered v (store w)))]), w))
          else (Inr (Redirect ''/''), w))"

text \<open>
  \<^verbatim>\<open>update_user_setting\<close>: \<^verbatim>\<open>request.values.get(user_setting_id)\<close> looks the path
  segment up as a parameter name.
\<close>

definition update_user_setting ::
  "conversions \<Rightarrow> string \<Rightarrow> (string \<rightharpoonup> string) \<Rightarrow> world \<Rightarrow> outcome" where
  "update_user_setting cv ident vals w =
     (let new_value_user_setting = vals ident
      in case UserSetting_query_one cv ident (store w) of
           Inl e \<Rightarrow> (Inl e, w)
         | Inr r \<Rightarrow>
             (case update_value r new_value_user_setting (store w) of
                Inl e \<Rightarrow> (Inl e, w)
              | Inr d \<Rightarrow> (Inr (Redirect ''/settings''), w\<lparr>store := d\<rparr>)))"

text \<open>\<^verbatim>\<open>show_user_tasks_and_gameplan\<close>: \<^verbatim>\<open>user.username\<close> of \<^verbatim>\<open>None\<close> raises.\<close>

definition show_user_tasks_and_gameplan :: "world \<Rightarrow> outcome" where
  "show_user_tasks_and_gameplan w =
     (case session w ''user'' of
        None \<Rightarrow> (Inl KeyError, w)
      | Some uid \<Rightarrow>
          (case User_query_get uid (store w) of
             None \<Rightarrow> (Inl AttributeError, w)
           | Some u \<Rightarrow>
               (let gameplan = GameplanTask_query_ordered uid (store w);
                    ts = Task_query_filter_by_user uid (store w);
                    priority = map_option us_value (UserSetting_query_first uid 1 (store w));
                    intention = map_option us_value (UserSetting_query_first uid 9 (store w));
                    notes_reminders =
                      map_option us_value (UserSetting_query_first uid 10 (store w))
                in (Inr (Render_template ''dashboard.html''
                           [(''username'', CStr (username u)),
                            (''gameplan_tasks'', CGameplanTasks gameplan),
                            (''tasks'', CTasks ts),
                            (''priority'', ctx_of priority),
                            (''intention'', ctx_of intention),
                            (''notes_reminders'', ctx_of notes_reminders)]), w))))"

text \<open>
  \<^verbatim>\<open>add_task_to_gameplan\<close>: \<^verbatim>\<open>int(order)\<close> raises \<^verbatim>\<open>TypeError\<close> for a form
  without \<^verbatim>\<open>order\<close> and \<^verbatim>\<open>ValueError\<close> for text that is no integer.
\<close>

definition add_task_to_gameplan :: "conversions \<Rightarrow> (string \<rightharpoonup> string) \<Rightarrow> world \<Rightarrow> outcome" where
  "add_task_to_gameplan cv form w =
     (case session w ''user'' of
        None \<Rightarrow> (Inl KeyError, w)
      | Some uid \<Rightarrow>
          (let tid = form ''gameplan_task_name'';
               start_text = form ''start_time'';
               end_text = form ''end_time''
           in case form ''order'' of
                None \<Rightarrow> (Inl TypeError, w)
              | Some s \<Rightarrow>
                  (case py_int cv s of
                     None \<Rightarrow> (Inl ValueError, w)
                   | Some ord \<Rightarrow>
                       (case insert_gameplan_task cv tid uid ord start_text end_text (store w) of
                          Inl e \<Rightarrow> (Inl e, w)
                        | Inr d \<Rightarrow> (Inr (Redirect ''/dashboard''), w\<lparr>store := d\<rparr>)))))"

text \<open>\<^verbatim>\<open>delete_task_from_gameplan\<close> has no \<^verbatim>\<open>try\<close>.\<close>

definition delete_task_from_gameplan :: "conversions \<Rightarrow> string \<Rightarrow> world \<Rightarrow> outcome" where
  "delete_task_from_gameplan cv ident w =
     (case GameplanTask_query_get cv ident (store w) of
        Inl e \<Rightarrow> (Inl e, w)
      | Inr gptask_to_delete \<Rightarrow>
          (case session_delete_gameplan_task gptask_to_delete (store w) of
             Inl e \<Rightarrow> (Inl e, w)
           | Inr d \<Rightarrow> (Inr (Redirect ''/dashboard''), w\<lparr>store := d\<rparr>)))"

definition display_about_page :: "world \<Rightarrow> outcome" where
  "display_about_page w = (Inr (Render_template ''about.html'' []), w)"

subsection \<open>Requests\<close>

text \<open>
  The fourteen routes of \<^verbatim>\<open>server.py\<close>, each with what its handler reads from the
  request, and the handler each is dispatched to.
\<close>

datatype request =
    Index
  | Register_form
  | Register "string \<rightharpoonup> string"
  | Login "string \<rightharpoonup> string"
  | Logout
  | Task_list
  | Add_task "string \<rightharpoonup> string"
  | Delete_task string
  | Settings
  | Update_setting string "string \<rightharpoonup> string"
  | Dashboard
  | Add_to_gameplan "string \<rightharpoonup> string"
  | Delete_gptask string
  | About

fun handle :: "conversions \<Rightarrow> request \<Rightarrow> world \<Rightarrow> outcome" where
  "handle cv Index w = show_index w"
| "handle cv Register_form w = display_registration_form w"
| "handle cv (Register form) w = execute_user_registration form w"
| "handle cv (Login form) w = check_login_credentials form w"
| "handle cv Logout w = log_out_user w"
| "handle cv Task_list w = task_list w"
| "handle cv (Add_task form) w = add_new_task cv form w"
| "handle cv (Delete_task ident) w = delete_task_from_task_list cv ident w"
| "handle cv Settings w = show_user_settings w"
| "handle cv (Update_setting ident vals) w = update_user_setting cv ident vals w"
| "handle cv Dashboard w = show_user_tasks_and_gameplan w"
| "handle cv (Add_to_gameplan form) w = add_task_to_gameplan cv form w"
| "handle cv (Delete_gptask ident) w = delete_task_from_gameplan cv ident w"
| "handle cv About w = display_about_page w"

subsection \<open>Session states\<close>

text \<open>
  A session is authenticated when \<^verbatim>\<open>session['user']\<close> holds a user id, anonymous when
  the key is absent or holds \<^verbatim>\<open>None\<close>. A world is reachable when some sequence of
  requests leads to it from a world whose session is empty, whatever its store.
\<close>

datatype session_state = Anonymous | Authenticated int

definition session_state_of :: "(string \<rightharpoonup> int option) \<Rightarrow> session_state" where
  "session_state_of s =
     (case s ''user'' of
        None \<Rightarrow> Anonymous
      | Some None \<Rightarrow> Anonymous
      | Some (Some i) \<Rightarrow> Authenticated i)"

inductive reachable_world :: "conversions \<Rightarrow> world \<Rightarrow> bool" where
  start: "session w = Map.empty \<Longrightarrow> reachable_world cv w"
| step: "reachable_world cv w \<Longrightarrow> reachable_world cv (snd (handle cv rq w))"

text \<open>
  The condition the specification puts on a login: the submitted username exists and
  its stored password equals the submitted one.
\<close>

definition credentials_match :: "(string \<rightharpoonup> string) \<Rightarrow> database \<Rightarrow> bool" where
  "credentials_match form d =
     list_ex (\<lambda>u. Some (username u) = form ''username'' \<and> Some (password u) = form ''password'')
       (users d)"

subsection \<open>Ascending order\<close>

text \<open>
  What the specification asks of the gameplan listing: each row's \<^verbatim>\<open>order\<close> is at
  most that of every later row, rows without an order coming last.
\<close>

definition order_le :: "int option \<Rightarrow> int option \<Rightarrow> bool" where
  "order_le a b =
     (case (a, b) of
        (Some x, Some y) \<Rightarrow> x \<le> y
      | (None, Some y) \<Rightarrow> False
      | (_, None) \<Rightarrow> True)"

definition ascending_by_order :: "gameplan_task list \<Rightarrow> bool" where
  "ascending_by_order gs = sorted_wrt (\<lambda>a b. order_le (gp_order a) (gp_order b)) gs"

subsection \<open>Sample data\<close>

text \<open>
  A sample of the conversions, for the worked examples: a plain decimal numeral (blanks
  around it, an optional sign, digits) is read as its value, within 32 bits where a
  column takes it, and all other text is refused; a time is written as such a numeral.
  The examples bind only the texts \<^verbatim>\<open>1\<close>, \<^verbatim>\<open>2\<close>, \<^verbatim>\<open>7\<close> and \<^verbatim>\<open>abc\<close>, and
  only to integer columns, where they are read so whatever the driver and the store.
\<close>

definition digit_of :: "char \<Rightarrow> nat option" where
  "digit_of c = (let n = (of_char c :: nat) in if 48 \<le> n \<and> n \<le> 57 then Some (n - 48) else None)"

fun digits_val :: "nat \<Rightarrow> string \<Rightarrow> nat option" where
  "digits_val acc [] = Some acc"
| "digits_val acc (c # cs) =
     (case digit_of c of None \<Rightarrow> None | Some d \<Rightarrow> digits_val (10 * acc + d) cs)"

definition unsigned_val :: "string \<Rightarrow> nat option" where
  "unsigned_val s = (if s = [] then None else digits_val 0 s)"

definition is_blank :: "char \<Rightarrow> bool" where
  "is_blank c = (let n = (of_char c :: nat) in n = 32 \<or> (9 \<le> n \<and> n \<le> 13))"

definition strip_blanks :: "string \<Rightarrow> string" where
  "strip_blanks s = rev (dropWhile is_blank (rev (dropWhile is_blank s)))"

definition decimal_int :: "string \<Rightarrow> int option" where
  "decimal_int s =
     (case strip_blanks s of
        [] \<Rightarrow> None
      | c # cs \<Rightarrow>
          if c = CHR ''-'' then map_option (\<lambda>n. - int n) (unsigned_val cs)
          else if c = CHR ''+'' then map_option int (unsigned_val cs)
          else map_option int (unsigned_val (c # cs)))"

definition sample_read_int :: "string \<Rightarrow> error + int" where
  "sample_read_int s =
     (case decimal_int s of
        None \<Rightarrow> Inl DataError
      | Some i \<Rightarrow> if - 2147483648 \<le> i \<and> i \<le> 2147483647 then Inr i else Inl DataError)"

definition sample_read_opt :: "string option \<Rightarrow> error + int option" where
  "sample_read_opt v =
     (case v of
        None \<Rightarrow> Inr None
      | Some s \<Rightarrow> (case sample_read_int s of Inl e \<Rightarrow> Inl e | Inr i \<Rightarrow> Inr (Some i)))"

definition sample_conversions :: conversions where
  "sample_conversions =
     \<lparr>read_int = sample_read_int,
      read_gameplan_row =
        (\<lambda>tid ord start_text end_text.
           case (sample_read_opt tid, sample_read_opt start_text, sample_read_opt end_text) of
             (Inl e, _, _) \<Rightarrow> Inl e
           | (_, Inl e, _) \<Rightarrow> Inl e
           | (_, _, Inl e) \<Rightarrow> Inl e
           | (Inr t, Inr s, Inr e) \<Rightarrow>
               if - 2147483648 \<le> ord \<and> ord \<le> 2147483647 then Inr (t, ord, s, e)
               else Inl DataError),
      py_int = decimal_int\<rparr>"

definition alice :: user where
  "alice = \<lparr>user_id = 1, username = ''alice'', password = ''pw1'',
            home_address = None, destination_address = None\<rparr>"

definition shower :: task where
  "shower = \<lparr>task_id = 1, task_user_id = 1, task_name = ''Shower'',
             task_description = None, duration_estimate = 10, duration_actual = None\<rparr>"

definition coffee :: task where
  "coffee = \<lparr>task_id = 2, task_user_id = 1, task_name = ''Coffee'',
             task_description = None, duration_estimate = 5, duration_actual = None\<rparr>"

definition shower_slot :: gameplan_task where
  "shower_slot = \<lparr>gp_task_id = 1, gp_user_id = 1, gp_order = Some 2,
                  start_time = Some 700, end_time = Some 710\<rparr>"

definition coffee_slot :: gameplan_task where
  "coffee_slot = \<lparr>gp_task_id = 2, gp_user_id = 1, gp_order = Some 1,
                  start_time = Some 650, end_time = Some 655\<rparr>"

definition priority_setting :: setting where
  "priority_setting = \<lparr>setting_id = 1, setting_name = Some ''priority''\<rparr>"

definition alice_priority :: user_setting where
  "alice_priority = \<lparr>user_setting_id = 1, us_user_id = 1, us_setting_id = 1,
                     us_value = ''exercise''\<rparr>"

definition empty_db :: database where
  "empty_db = \<lparr>users = [], settings = [], users_settings = [], tasks = [],
               gameplan_tasks = [], categories = [], tasks_categories = [],
               users_user_id_seq = 0, users_settings_user_setting_id_seq = 0,
               tasks_task_id_seq = 0\<rparr>"

definition sample_db :: database where
  "sample_db = empty_db\<lparr>users := [alice], settings := [priority_setting],
                        users_settings := [alice_priority], tasks := [shower, coffee],
                        gameplan_tasks := [shower_slot],
                        users_user_id_seq := 1, users_settings_user_setting_id_seq := 1,
                        tasks_task_id_seq := 2\<rparr>"

definition anonymous_world :: "database \<Rightarrow> world" where
  "anonymous_world d = \<lparr>session = Map.empty, store = d, flashes = []\<rparr>"

definition logged_in_world :: "int \<Rightarrow> database \<Rightarrow> world" where
  "logged_in_world i d = \<lparr>session = [''user'' \<mapsto> Some i], store = d, flashes = []\<rparr>"

definition shower_form :: "string \<rightharpoonup> string" where
  "shower_form = [''task_name'' \<mapsto> ''Shower'', ''duration_estimate'' \<mapsto> ''10'']"

definition mismatch_form :: "string \<rightharpoonup> string" where
  "mismatch_form = [''username'' \<mapsto> ''bob'', ''password'' \<mapsto> ''pw2'',
                    ''confirm_password'' \<mapsto> ''pw3'']"

definition bob_form :: "string \<rightharpoonup> string" where
  "bob_form = [''username'' \<mapsto> ''bob'', ''password'' \<mapsto> ''pw2'',
               ''confirm_password'' \<mapsto> ''pw2'']"

definition alice_login :: "string \<rightharpoonup> string" where
  "alice_login = [''username'' \<mapsto> ''alice'', ''password'' \<mapsto> ''pw1'']"

definition alice_wrong_login :: "string \<rightharpoonup> string" where
  "alice_wrong_login = [''username'' \<mapsto> ''alice'', ''password'' \<mapsto> ''pw9'']"

definition carol_login :: "string \<rightharpoonup> string" where
  "carol_login = [''username'' \<mapsto> ''carol'', ''password'' \<mapsto> ''pw1'']"

definition bob :: user where
  "bob = \<lparr>user_id = 2, username = ''bob'', password = ''pw2'',
          home_address = None, destination_address = None\<rparr>"

definition two_slot_db :: database where
  "two_slot_db = sample_db\<lparr>gameplan_tasks := [shower_slot, coffee_slot]\<rparr>"

definition must_do :: category where
  "must_do = \<lparr>category_id = 1, category_name = ''must-do''\<rparr>"

definition coffee_must_do :: task_category where
  "coffee_must_do = \<lparr>tasks_categories_id = 1, tc_task_id = 2, tc_category_id = Some 1\<rparr>"

definition tagged_db :: database where
  "tagged_db = sample_db\<lparr>categories := [must_do], tasks_categories := [coffee_must_do]\<rparr>"

definition sleep_values :: "string \<rightharpoonup> string" where
  "sleep_values = [''1'' \<mapsto> ''sleep'', ''value'' \<mapsto> ''run'']"

section \<open>Properties\<close>

subsection \<open>Evaluation of the sample data\<close>

lemma world_simps:
  "store (anonymous_world d) = d"
  "session (anonymous_world d) = Map.empty"
  "flashes (anonymous_world d) = []"
  "store (logged_in_world i d) = d"
  "session (logged_in_world i d) = [''user'' \<mapsto> Some i]"
  "flashes (logged_in_world i d) = []"
  by (simp_all add: anonymous_world_def logged_in_world_def)

lemma sample_db_simps:
  "users sample_db = [alice]"
  "settings sample_db = [priority_setting]"
  "users_settings sample_db = [alice_priority]"
  "tasks sample_db = [shower, coffee]"
  "gameplan_tasks sample_db = [shower_slot]"
  "categories sample_db = []"
  "tasks_categories sample_db = []"
  "users_user_id_seq sample_db = 1"
  "users_settings_user_setting_id_seq sample_db = 1"
  "tasks_task_id_seq sample_db = 2"
  by (simp_all add: sample_db_def empty_db_def)

lemma bind_Task_init:
  "bind_keywords Task_init_params [''user_id'', ''task_name'', ''duration_estimate'']
     = Inl TypeError"
  by (simp add: bind_keywords_def Task_init_params_def)

lemma bind_User_init:
  "bind_keywords User_init_params [''username'', ''password''] = Inr ()"
  by (simp add: bind_keywords_def User_init_params_def)

subsection \<open>Adding a task\<close>

text \<open>
  Claim C2 says that an add-task request of an authenticated session creates one Task
  row with the session user's id, the submitted name and the submitted estimate. The
  handler passes \<^verbatim>\<open>user_id\<close> to \<^verbatim>\<open>Task.__init__\<close>, which has no such parameter:
  whenever the session holds the key \<^verbatim>\<open>'user'\<close>, the request ends in
  \<^verbatim>\<open>TypeError\<close> and the world, the table of tasks included, is as it was.
\<close>

theorem add_new_task_raises_TypeError:
  "session w ''user'' = Some uid \<Longrightarrow> add_new_task cv form w = (Inl TypeError, w)"
  by (simp add: add_new_task_def bind_Task_init)

theorem add_new_task_raises_TypeError_witness:
  "add_new_task sample_conversions shower_form (logged_in_world 1 sample_db)
     = (Inl TypeError, logged_in_world 1 sample_db)
   \<and> tasks (store (logged_in_world 1 sample_db)) = [shower, coffee]"
proof -
  have h: "session (logged_in_world 1 sample_db) ''user'' = Some (Some 1)"
    by (simp add: world_simps)
  show ?thesis
    using add_new_task_raises_TypeError [OF h, of sample_conversions shower_form]
    by (simp add: world_simps sample_db_simps)
qed

subsection \<open>Registration with passwords that differ\<close>

text \<open>
  Claim C6: when password and confirmation differ, registration creates no User row and
  no UserSetting row (the store is unchanged), flashes a message and sends the user back
  to the registration form.
\<close>

theorem registration_mismatch_no_rows:
  "form ''password'' \<noteq> form ''confirm_password'' \<Longrightarrow>
     fst (execute_user_registration form w) = Inr (Redirect ''/register'')
     \<and> store (snd (execute_user_registration form w)) = store w
     \<and> session (snd (execute_user_registration form w)) = session w
     \<and> flashes (snd (execute_user_registration form w))
         = flashes w @ [''Your passwords do not match. Please try again.'']"
  by (simp add: execute_user_registration_def flash_def)

theorem registration_mismatch_no_rows_witness:
  "fst (execute_user_registration mismatch_form (anonymous_world sample_db))
     = Inr (Redirect ''/register'')
   \<and> users (store (snd (execute_user_registration mismatch_form (anonymous_world sample_db))))
     = [alice]
   \<and> users_settings
       (store (snd (execute_user_registration mismatch_form (anonymous_world sample_db))))
     = [alice_priority]
   \<and> flashes (snd (execute_user_registration mismatch_form (anonymous_world sample_db)))
     = [''Your passwords do not match. Please try again.'']"
proof -
  have h: "mismatch_form ''password'' \<noteq> mismatch_form ''confirm_password''"
    by (simp add: mismatch_form_def)
  show ?thesis
    using registration_mismatch_no_rows [OF h, of "anonymous_world sample_db"]
    by (simp add: world_simps sample_db_simps)
qed

subsection \<open>The home view\<close>

text \<open>
  Claim C8 says that the home view greets with the session user's name, and with
  ``friend'' in every other case, a session whose user id matches no stored User
  included. In \<^verbatim>\<open>show_index\<close> the \<^verbatim>\<open>else\<close> that binds ``friend'' belongs to the
  outer test only: with a non-zero user id in the session that matches no User row,
  \<^verbatim>\<open>username\<close> is never bound and the request ends in \<^verbatim>\<open>UnboundLocalError\<close>.
\<close>

theorem show_index_stale_user:
  "session w ''user'' = Some (Some i) \<Longrightarrow> i \<noteq> 0 \<Longrightarrow>
   find (\<lambda>u. user_id u = i) (users (store w)) = None \<Longrightarrow>
   show_index w = (Inl UnboundLocalError, w)"
  by (simp add: show_index_def truthy_def User_query_get_def)

theorem show_index_stale_user_witness:
  "show_index (logged_in_world 7 sample_db)
     = (Inl UnboundLocalError, logged_in_world 7 sample_db)"
proof -
  have h1: "session (logged_in_world 7 sample_db) ''user'' = Some (Some 7)"
    by (simp add: world_simps)
  have h2: "find (\<lambda>u. user_id u = 7) (users (store (logged_in_world 7 sample_db))) = None"
    by (simp add: world_simps sample_db_simps alice_def)
  show ?thesis
    using show_index_stale_user [OF h1 _ h2] by simp
qed

subsection \<open>Registration with matching passwords\<close>

lemma insert_user_frame:
  "settings (snd (insert_user n p d)) = settings d"
  "users_settings (snd (insert_user n p d)) = users_settings d"
  by (auto simp: insert_user_def Let_def split: option.splits)

lemma seed_user_settings_nonempty:
  "ss \<noteq> [] \<Longrightarrow> seed_user_settings uid ss d = (Inl AttributeError, d)"
  by (cases ss) (simp_all add: setting_default_value_def)

text \<open>
  Claim C1 says that a registration with matching passwords creates one User row and one
  UserSetting row per Setting of the catalog, valued with that Setting's default. The
  loop reads \<^verbatim>\<open>setting.setting_default_value\<close>, which \<^verbatim>\<open>class Setting\<close> does not
  have: whenever the catalog is not empty the request ends in an error and the table
  of user settings is as it was, whatever became of the User row.
\<close>

theorem registration_seeds_no_user_setting:
  "form ''password'' = form ''confirm_password'' \<Longrightarrow> settings (store w) \<noteq> [] \<Longrightarrow>
     (\<exists>e. fst (execute_user_registration form w) = Inl e)
     \<and> users_settings (store (snd (execute_user_registration form w)))
         = users_settings (store w)"
proof -
  assume eq: "form ''password'' = form ''confirm_password''" and ne: "settings (store w) \<noteq> []"
  obtain r d1 where ins: "insert_user (form ''username'') (form ''password'') (store w) = (r, d1)"
    by (cases "insert_user (form ''username'') (form ''password'') (store w)")
  have s1: "settings d1 = settings (store w)" and u1: "users_settings d1 = users_settings (store w)"
    using insert_user_frame [of "form ''username''" "form ''password''" "store w"] ins by simp_all
  show ?thesis
  proof (cases r)
    case (Inl e)
    then show ?thesis
      using eq ins u1 by (simp add: execute_user_registration_def bind_User_init)
  next
    case (Inr u)
    have "seed_user_settings (user_id u) (settings d1) d1 = (Inl AttributeError, d1)"
      using seed_user_settings_nonempty ne s1 by simp
    then show ?thesis
      using eq ins u1 Inr by (simp add: execute_user_registration_def bind_User_init)
  qed
qed

lemma pg_varchar_short: "length s \<le> n \<Longrightarrow> pg_varchar n s = Some s"
  by (simp add: pg_varchar_def)


lemma insert_bob:
  "insert_user (Some ''bob'') (Some ''pw2'') sample_db
     = (Inr bob, sample_db\<lparr>users_user_id_seq := 2, users := [alice, bob]\<rparr>)"
  by (simp add: insert_user_def pg_varchar_short sample_db_simps alice_def bob_def Let_def)

theorem registration_seeds_no_user_setting_witness:
  "fst (execute_user_registration bob_form (anonymous_world sample_db)) = Inl AttributeError
   \<and> users (store (snd (execute_user_registration bob_form (anonymous_world sample_db))))
       = [alice, bob]
   \<and> settings (store (snd (execute_user_registration bob_form (anonymous_world sample_db))))
       = [priority_setting]
   \<and> users_settings (store (snd (execute_user_registration bob_form (anonymous_world sample_db))))
       = [alice_priority]"
proof -
  have h1: "bob_form ''password'' = bob_form ''confirm_password''"
    by (simp add: bob_form_def)
  have h2: "settings (store (anonymous_world sample_db)) \<noteq> []"
    by (simp add: world_simps sample_db_simps)
  have f: "bob_form ''username'' = Some ''bob''" "bob_form ''password'' = Some ''pw2''"
    "bob_form ''confirm_password'' = Some ''pw2''"
    by (simp_all add: bob_form_def)
  have ev: "execute_user_registration bob_form (anonymous_world sample_db)
    = (Inl AttributeError, (anonymous_world sample_db)\<lparr>store := sample_db\<lparr>users_user_id_seq := 2, users := [alice, bob]\<rparr>\<rparr>)"
    by (simp add: execute_user_registration_def f bind_User_init world_simps insert_bob
        sample_db_simps setting_default_value_def)
  show ?thesis
    using registration_seeds_no_user_setting [OF h1 h2] ev
    by (simp add: world_simps sample_db_simps)
qed


subsection \<open>Login, logout and the session\<close>

lemma find_unique_key:
  "distinct (map f xs) \<Longrightarrow> x \<in> set xs \<Longrightarrow> find (\<lambda>y. f y = f x) xs = Some x"
  by (induction xs) auto


lemma login_found:
  assumes "distinct (map username (users d))" "u \<in> set (users d)" "Some (username u) = name"
  shows "User_query_filter_by_username_first name d = Some u"
proof -
  have "find (\<lambda>y. username y = username u) (users d) = Some u"
    using assms(1,2) by (rule find_unique_key)
  moreover have "find (\<lambda>y. Some (username y) = name) (users d)
      = find (\<lambda>y. username y = username u) (users d)"
    using assms(3) by (intro find_cong) auto
  ultimately show ?thesis by (simp only: User_query_filter_by_username_first_def)
qed

lemma login_success:
  assumes "distinct (map username (users (store w)))" "u \<in> set (users (store w))"
    "Some (username u) = form ''username''" "Some (password u) = form ''password''"
  shows "check_login_credentials form w
    = (Inr (Redirect ''/''), flash ''You are now logged in.''
         (w\<lparr>session := (session w)(''user'' \<mapsto> Some (user_id u))\<rparr>))"
  using login_found [OF assms(1,2,3)] assms(4)
  by (simp add: check_login_credentials_def)

lemma login_failure:
  assumes "distinct (map username (users (store w)))" "\<not> credentials_match form (store w)"
  shows "session (snd (check_login_credentials form w)) = session w"
proof (cases "User_query_filter_by_username_first (form ''username'') (store w)")
  case None
  then show ?thesis by (simp add: check_login_credentials_def flash_def)
next
  case (Some u)
  then have "u \<in> set (users (store w))" "Some (username u) = form ''username''"
    by (auto simp: User_query_filter_by_username_first_def find_Some_iff)
  then have "Some (password u) \<noteq> form ''password''"
    using assms(2) by (auto simp: credentials_match_def list_ex_iff)
  then show ?thesis using Some by (simp add: check_login_credentials_def flash_def)
qed

lemma login_store: "store (snd (check_login_credentials form w)) = store w"
  by (simp add: check_login_credentials_def flash_def split: option.splits)

lemma logout_store: "store (snd (log_out_user w)) = store w"
  by (simp add: log_out_user_def flash_def)

lemma logout_state: "session_state_of (session (snd (log_out_user w))) = Anonymous"
  by (simp add: log_out_user_def flash_def session_state_of_def)

lemma login_dom:
  "dom (session (snd (check_login_credentials form w))) \<subseteq> insert ''user'' (dom (session w))"
  by (auto simp: check_login_credentials_def flash_def split: option.splits if_splits)

lemma logout_dom:
  "dom (session (snd (log_out_user w))) \<subseteq> insert ''user'' (dom (session w))"
  by (auto simp: log_out_user_def flash_def split: if_splits)

lemma login_state:
  assumes "session_state_of (session (snd (check_login_credentials form w))) = Authenticated i"
  shows "session_state_of (session w) = Authenticated i
    \<or> list_ex (\<lambda>u. user_id u = i) (users (store w))"
proof (cases "User_query_filter_by_username_first (form ''username'') (store w)")
  case None
  then show ?thesis using assms by (simp add: check_login_credentials_def flash_def)
next
  case (Some u)
  then have m: "u \<in> set (users (store w))"
    by (auto simp: User_query_filter_by_username_first_def find_Some_iff)
  show ?thesis
  proof (cases "Some (password u) = form ''password''")
    case True
    then have "i = user_id u"
      using assms Some by (simp add: check_login_credentials_def flash_def session_state_of_def)
    then show ?thesis using m by (auto simp: list_ex_iff)
  next
    case False
    then show ?thesis using assms Some by (simp add: check_login_credentials_def flash_def)
  qed
qed

text \<open>No handler but the two above assigns to the session.\<close>

lemma session_frame:
  "session (snd (show_index w)) = session w"
  "session (snd (display_registration_form w)) = session w"
  "session (snd (execute_user_registration form w)) = session w"
  "session (snd (task_list w)) = session w"
  "session (snd (add_new_task cv form w)) = session w"
  "session (snd (delete_task_from_task_list cv ident w)) = session w"
  "session (snd (show_user_settings w)) = session w"
  "session (snd (update_user_setting cv ident vals w)) = session w"
  "session (snd (show_user_tasks_and_gameplan w)) = session w"
  "session (snd (add_task_to_gameplan cv form w)) = session w"
  "session (snd (delete_task_from_gameplan cv ident w)) = session w"
  "session (snd (display_about_page w)) = session w"
proof -
  show "session (snd (show_index w)) = session w"
    by (simp add: show_index_def Let_def split: option.splits)
  show "session (snd (display_registration_form w)) = session w"
    by (simp add: display_registration_form_def)
  show "session (snd (execute_user_registration form w)) = session w"
    by (simp add: execute_user_registration_def flash_def Let_def
        split: sum.splits prod.splits)
  show "session (snd (task_list w)) = session w"
    by (simp add: task_list_def split: option.splits)
  show "session (snd (add_new_task cv form w)) = session w"
    by (simp add: add_new_task_def bind_Task_init split: option.splits)
  show "session (snd (delete_task_from_task_list cv ident w)) = session w"
    by (simp add: delete_task_from_task_list_def flash_def split: sum.splits)
  show "session (snd (show_user_settings w)) = session w"
    by (simp add: show_user_settings_def split: option.splits)
  show "session (snd (update_user_setting cv ident vals w)) = session w"
    by (simp add: update_user_setting_def Let_def split: sum.splits)
  show "session (snd (show_user_tasks_and_gameplan w)) = session w"
    by (simp add: show_user_tasks_and_gameplan_def Let_def split: option.splits)
  show "session (snd (add_task_to_gameplan cv form w)) = session w"
    by (simp add: add_task_to_gameplan_def Let_def split: option.splits sum.splits)
  show "session (snd (delete_task_from_gameplan cv ident w)) = session w"
    by (simp add: delete_task_from_gameplan_def split: sum.splits)
  show "session (snd (display_about_page w)) = session w"
    by (simp add: display_about_page_def)
qed

lemma handle_session_frame:
  "(\<forall>f. rq \<noteq> Login f) \<Longrightarrow> rq \<noteq> Logout \<Longrightarrow> session (snd (handle cv rq w)) = session w"
  by (cases rq) (simp_all add: session_frame)

text \<open>No handler removes a user.\<close>

lemma insert_user_keeps_users: "set (users d) \<subseteq> set (users (snd (insert_user n p d)))"
  by (auto simp: insert_user_def Let_def split: option.splits)

lemma seed_user_settings_users: "users (snd (seed_user_settings uid ss d)) = users d"
  by (cases ss) (simp_all add: setting_default_value_def)

lemma registration_keeps_users:
  "set (users (store w)) \<subseteq> set (users (store (snd (execute_user_registration form w))))"
proof (cases "form ''password'' = form ''confirm_password''")
  case False
  then show ?thesis by (simp add: execute_user_registration_def flash_def)
next
  case eq: True
  obtain r d1 where ins: "insert_user (form ''username'') (form ''password'') (store w) = (r, d1)"
    by (cases "insert_user (form ''username'') (form ''password'') (store w)")
  have k: "set (users (store w)) \<subseteq> set (users d1)"
    using insert_user_keeps_users [of "store w" "form ''username''" "form ''password''"] ins
    by simp
  show ?thesis
  proof (cases r)
    case (Inl e)
    then show ?thesis
      using eq ins k by (simp add: execute_user_registration_def bind_User_init)
  next
    case (Inr u)
    obtain r2 d2 where sd: "seed_user_settings (user_id u) (settings d1) d1 = (r2, d2)"
      by (cases "seed_user_settings (user_id u) (settings d1) d1")
    have "users d2 = users d1"
      using seed_user_settings_users [of "user_id u" "settings d1" d1] sd by simp
    then show ?thesis
      using eq ins k Inr sd
      by (cases r2) (simp_all add: execute_user_registration_def flash_def bind_User_init)
  qed
qed

lemma users_frame:
  "users (store (snd (show_index w))) = users (store w)"
  "users (store (snd (display_registration_form w))) = users (store w)"
  "users (store (snd (task_list w))) = users (store w)"
  "users (store (snd (add_new_task cv form w))) = users (store w)"
  "users (store (snd (delete_task_from_task_list cv ident w))) = users (store w)"
  "users (store (snd (show_user_settings w))) = users (store w)"
  "users (store (snd (update_user_setting cv ident vals w))) = users (store w)"
  "users (store (snd (show_user_tasks_and_gameplan w))) = users (store w)"
  "users (store (snd (add_task_to_gameplan cv form w))) = users (store w)"
  "users (store (snd (delete_task_from_gameplan cv ident w))) = users (store w)"
  "users (store (snd (display_about_page w))) = users (store w)"
proof -
  show "users (store (snd (show_index w))) = users (store w)"
    by (simp add: show_index_def Let_def split: option.splits)
  show "users (store (snd (display_registration_form w))) = users (store w)"
    by (simp add: display_registration_form_def)
  show "users (store (snd (task_list w))) = users (store w)"
    by (simp add: task_list_def split: option.splits)
  show "users (store (snd (add_new_task cv form w))) = users (store w)"
    by (simp add: add_new_task_def bind_Task_init split: option.splits)
  show "users (store (snd (delete_task_from_task_list cv ident w))) = users (store w)"
    by (auto simp: delete_task_from_task_list_def flash_def session_delete_task_def
        split: sum.splits option.splits if_splits)
  show "users (store (snd (show_user_settings w))) = users (store w)"
    by (simp add: show_user_settings_def split: option.splits)
  show "users (store (snd (update_user_setting cv ident vals w))) = users (store w)"
    by (auto simp: update_user_setting_def update_value_def Let_def
        split: sum.splits option.splits if_splits)
  show "users (store (snd (show_user_tasks_and_gameplan w))) = users (store w)"
    by (simp add: show_user_tasks_and_gameplan_def Let_def split: option.splits)
  show "users (store (snd (add_task_to_gameplan cv form w))) = users (store w)"
    by (auto simp: add_task_to_gameplan_def insert_gameplan_task_def Let_def
        split: option.splits sum.splits prod.splits if_splits)
  show "users (store (snd (delete_task_from_gameplan cv ident w))) = users (store w)"
    by (auto simp: delete_task_from_gameplan_def session_delete_gameplan_task_def
        split: sum.splits option.splits)
  show "users (store (snd (display_about_page w))) = users (store w)"
    by (simp add: display_about_page_def)
qed

lemma handle_keeps_users:
  "set (users (store w)) \<subseteq> set (users (store (snd (handle cv rq w))))"
  by (cases rq) (simp_all add: users_frame registration_keeps_users login_store logout_store)

lemma handle_dom:
  "dom (session (snd (handle cv rq w))) \<subseteq> insert ''user'' (dom (session w))"
proof (cases "(\<forall>f. rq \<noteq> Login f) \<and> rq \<noteq> Logout")
  case True
  then show ?thesis using handle_session_frame [of rq cv w] by auto
next
  case False
  then show ?thesis using login_dom logout_dom by (cases rq) auto
qed

lemma handle_state:
  assumes "session_state_of (session (snd (handle cv rq w))) = Authenticated i"
  shows "session_state_of (session w) = Authenticated i
    \<or> list_ex (\<lambda>u. user_id u = i) (users (store w))"
proof (cases "(\<forall>f. rq \<noteq> Login f) \<and> rq \<noteq> Logout")
  case True
  then show ?thesis using assms handle_session_frame [of rq cv w] by simp
next
  case False
  then show ?thesis using assms login_state logout_state by (cases rq) auto
qed

lemma reachable_world_invariant:
  "reachable_world cv w \<Longrightarrow>
     dom (session w) \<subseteq> {''user''}
     \<and> (\<forall>i. session_state_of (session w) = Authenticated i \<longrightarrow>
            list_ex (\<lambda>u. user_id u = i) (users (store w)))"
proof (induction rule: reachable_world.induct)
  case (start w cv)
  then show ?case by (simp add: session_state_of_def)
next
  case (step cv w rq)
  have d: "dom (session (snd (handle cv rq w))) \<subseteq> {''user''}"
    using step.IH handle_dom [of cv rq w] by blast
  have "list_ex (\<lambda>u. user_id u = i) (users (store (snd (handle cv rq w))))"
    if a: "session_state_of (session (snd (handle cv rq w))) = Authenticated i" for i
  proof -
    have "list_ex (\<lambda>u. user_id u = i) (users (store w))"
      using handle_state [OF a] step.IH by blast
    then show ?thesis using handle_keeps_users [of w cv rq] by (auto simp: list_ex_iff)
  qed
  then show ?case using d by blast
qed

text \<open>
  Claim C4. With usernames unique, as the schema declares them, a login whose username
  exists with the submitted password stored puts that user's id into the session; any
  other login leaves the session as it was, logout makes it anonymous, and no request
  to any of the other twelve routes changes it. Hence an anonymous session becomes
  authenticated exactly when the request is a login with matching credentials. In
  every world that requests lead to from an empty session, the session has no key but
  \<^verbatim>\<open>'user'\<close> and an authenticated session holds the id of a stored user: there are
  no states but \<open>Anonymous\<close> and \<open>Authenticated\<close> of a registered user.
\<close>

theorem session_state_machine:
  "distinct (map username (users (store w))) \<Longrightarrow>
     (\<forall>u \<in> set (users (store w)).
         Some (username u) = form ''username'' \<and> Some (password u) = form ''password'' \<longrightarrow>
         session_state_of (session (snd (check_login_credentials form w)))
           = Authenticated (user_id u))
     \<and> (\<not> credentials_match form (store w) \<longrightarrow>
           session (snd (check_login_credentials form w)) = session w)
     \<and> session_state_of (session (snd (log_out_user w))) = Anonymous
     \<and> ((\<forall>f. rq \<noteq> Login f) \<and> rq \<noteq> Logout \<longrightarrow>
           session (snd (handle cv rq w)) = session w)
     \<and> (session_state_of (session w) = Anonymous \<longrightarrow>
           ((\<exists>i. session_state_of (session (snd (handle cv rq w))) = Authenticated i)
            \<longleftrightarrow> (\<exists>f. rq = Login f \<and> credentials_match f (store w))))
     \<and> (reachable_world cv w' \<longrightarrow>
           dom (session w') \<subseteq> {''user''}
           \<and> (\<forall>i. session_state_of (session w') = Authenticated i \<longrightarrow>
                  list_ex (\<lambda>u. user_id u = i) (users (store w'))))"
proof -
  assume d: "distinct (map username (users (store w)))"
  have a: "\<forall>u \<in> set (users (store w)).
         Some (username u) = g ''username'' \<and> Some (password u) = g ''password'' \<longrightarrow>
         session_state_of (session (snd (check_login_credentials g w)))
           = Authenticated (user_id u)" for g
    using login_success [OF d] by (simp add: flash_def session_state_of_def)
  have b: "\<not> credentials_match g (store w) \<longrightarrow>
           session (snd (check_login_credentials g w)) = session w" for g
    using login_failure [OF d] by simp
  have e: "session_state_of (session (snd (log_out_user w))) = Anonymous"
    by (rule logout_state)
  have f: "(\<forall>f. rq \<noteq> Login f) \<and> rq \<noteq> Logout \<longrightarrow> session (snd (handle cv rq w)) = session w"
    using handle_session_frame [of rq cv w] by simp
  have c: "(\<exists>i. session_state_of (session (snd (handle cv rq w))) = Authenticated i)
            \<longleftrightarrow> (\<exists>f. rq = Login f \<and> credentials_match f (store w))"
    if anon: "session_state_of (session w) = Anonymous"
  proof (cases "(\<forall>f. rq \<noteq> Login f) \<and> rq \<noteq> Logout")
    case True
    then show ?thesis using f anon by auto
  next
    case False
    then consider (login) g where "rq = Login g" | (logout) "rq = Logout" by blast
    then show ?thesis
    proof cases
      case login
      show ?thesis
      proof (cases "credentials_match g (store w)")
        case True
        then show ?thesis
          using a [of g] login by (auto simp: credentials_match_def list_ex_iff)
      next
        case False
        then show ?thesis using b [of g] login anon by auto
      qed
    next
      case logout
      then show ?thesis using e by simp
    qed
  qed
  show ?thesis using a [of form] b [of form] e f c reachable_world_invariant [of cv w'] by blast
qed

lemma form_simps:
  "alice_login ''username'' = Some ''alice''" "alice_login ''password'' = Some ''pw1''"
  "alice_wrong_login ''username'' = Some ''alice''" "alice_wrong_login ''password'' = Some ''pw9''"
  "carol_login ''username'' = Some ''carol''" "carol_login ''password'' = Some ''pw1''"
  by (simp_all add: alice_login_def alice_wrong_login_def carol_login_def)

theorem session_state_machine_witness:
  "session_state_of (session (snd (check_login_credentials alice_login (anonymous_world sample_db))))
     = Authenticated 1
   \<and> session (snd (check_login_credentials alice_wrong_login (anonymous_world sample_db)))
     = Map.empty
   \<and> session (snd (check_login_credentials carol_login (anonymous_world sample_db)))
     = Map.empty
   \<and> session_state_of (session (snd (log_out_user (logged_in_world 1 sample_db)))) = Anonymous
   \<and> session (snd (handle sample_conversions (Register bob_form) (anonymous_world sample_db)))
     = Map.empty
   \<and> session (snd (handle sample_conversions (Delete_gptask ''1'') (logged_in_world 1 sample_db)))
     = [''user'' \<mapsto> Some 1]
   \<and> reachable_world sample_conversions
       (snd (handle sample_conversions (Login alice_login) (anonymous_world sample_db)))
   \<and> list_ex (\<lambda>u. user_id u = 1)
       (users (store (snd (handle sample_conversions (Login alice_login)
                             (anonymous_world sample_db)))))"
proof -
  let ?w = "anonymous_world sample_db"
  let ?w1 = "snd (handle sample_conversions (Login alice_login) ?w)"
  have d: "distinct (map username (users (store ?w)))"
    by (simp add: world_simps sample_db_simps)
  have d1: "distinct (map username (users (store (logged_in_world 1 sample_db))))"
    by (simp add: world_simps sample_db_simps)
  have m: "alice \<in> set (users (store ?w))"
    "Some (username alice) = alice_login ''username''"
    "Some (password alice) = alice_login ''password''"
    by (simp_all add: world_simps sample_db_simps form_simps alice_def)
  have n1: "\<not> credentials_match alice_wrong_login (store ?w)"
    by (simp add: credentials_match_def world_simps sample_db_simps form_simps alice_def)
  have n2: "\<not> credentials_match carol_login (store ?w)"
    by (simp add: credentials_match_def world_simps sample_db_simps form_simps alice_def)
  have r: "reachable_world sample_conversions ?w1"
    by (rule reachable_world.step) (simp add: reachable_world.start world_simps)
  have i: "user_id alice = 1" by (simp add: alice_def)
  have q: "(\<forall>f. Register bob_form \<noteq> Login f) \<and> Register bob_form \<noteq> Logout"
    "(\<forall>f. Delete_gptask ''1'' \<noteq> Login f) \<and> Delete_gptask ''1'' \<noteq> Logout"
    by simp_all
  have s1: "session_state_of (session ?w1) = Authenticated 1"
    using session_state_machine [OF d, where form = alice_login] m i by simp
  show ?thesis
    using session_state_machine
        [OF d, where form = alice_login and cv = sample_conversions
           and rq = "Register bob_form" and w' = ?w1]
      session_state_machine [OF d, where form = alice_wrong_login]
      session_state_machine [OF d, where form = carol_login]
      session_state_machine
        [OF d1, where form = alice_login and cv = sample_conversions
           and rq = "Delete_gptask ''1''"]
      m n1 n2 r i q s1
    by (simp add: world_simps)
qed

subsection \<open>The gameplan listing\<close>

lemma order_key_le: "order_key a \<le> order_key b \<longleftrightarrow> order_le (gp_order a) (gp_order b)"
  by (simp add: order_key_def order_le_def split: option.splits)

lemma sorted_order_key: "sorted (map order_key gs) = ascending_by_order gs"
  by (simp add: sorted_map ascending_by_order_def order_key_le)

lemma decimal_int_samples:
  "decimal_int ''1'' = Some 1" "decimal_int ''2'' = Some 2" "decimal_int ''7'' = Some 7"
  "decimal_int ''abc'' = None"
proof -
  have s: "strip_blanks ''1'' = ''1''" "strip_blanks ''2'' = ''2''" "strip_blanks ''7'' = ''7''"
    "strip_blanks ''abc'' = ''abc''"
    by (simp_all add: strip_blanks_def is_blank_def)
  have u: "unsigned_val ''1'' = Some 1" "unsigned_val ''2'' = Some 2" "unsigned_val ''7'' = Some 7"
    "unsigned_val ''abc'' = None"
    by (simp_all add: unsigned_val_def digit_of_def)
  show "decimal_int ''1'' = Some 1" "decimal_int ''2'' = Some 2" "decimal_int ''7'' = Some 7"
    "decimal_int ''abc'' = None"
    by (simp_all add: decimal_int_def s u)
qed

lemma read_int_1: "read_int sample_conversions ''1'' = Inr 1"
  by (simp add: sample_conversions_def sample_read_int_def decimal_int_samples)

lemma read_int_2: "read_int sample_conversions ''2'' = Inr 2"
  by (simp add: sample_conversions_def sample_read_int_def decimal_int_samples)

lemma read_int_7: "read_int sample_conversions ''7'' = Inr 7"
  by (simp add: sample_conversions_def sample_read_int_def decimal_int_samples)

lemma read_int_abc: "read_int sample_conversions ''abc'' = Inl DataError"
  by (simp add: sample_conversions_def sample_read_int_def decimal_int_samples)

lemma two_slot_db_simps:
  "users two_slot_db = [alice]" "tasks two_slot_db = [shower, coffee]"
  "gameplan_tasks two_slot_db = [shower_slot, coffee_slot]"
  "users_settings two_slot_db = [alice_priority]"
  "tasks_categories two_slot_db = []"
  by (simp_all add: two_slot_db_def sample_db_simps)

text \<open>
  Claim C7: for every user id, the listing of that user's gameplan tasks holds exactly
  that user's GameplanTask rows, in ascending \<^verbatim>\<open>order\<close>; the dashboard of a session
  whose user is stored renders that listing.
\<close>

theorem gameplan_listing_ascending:
  "ascending_by_order (GameplanTask_query_ordered uid d)
   \<and> mset (GameplanTask_query_ordered uid d)
       = mset (filter (\<lambda>g. Some (gp_user_id g) = uid) (gameplan_tasks d))
   \<and> (session w ''user'' = Some uid \<and> User_query_get uid (store w) = Some u \<longrightarrow>
        (\<exists>ctx. fst (show_user_tasks_and_gameplan w) = Inr (Render_template ''dashboard.html'' ctx)
           \<and> map_of ctx ''gameplan_tasks''
               = Some (CGameplanTasks (GameplanTask_query_ordered uid (store w)))))"
proof -
  have a: "ascending_by_order (GameplanTask_query_ordered uid d)"
    by (simp add: GameplanTask_query_ordered_def sorted_order_key [symmetric])
  have b: "mset (GameplanTask_query_ordered uid d)
       = mset (filter (\<lambda>g. Some (gp_user_id g) = uid) (gameplan_tasks d))"
    by (simp add: GameplanTask_query_ordered_def)
  have c: "session w ''user'' = Some uid \<and> User_query_get uid (store w) = Some u \<longrightarrow>
        (\<exists>ctx. fst (show_user_tasks_and_gameplan w) = Inr (Render_template ''dashboard.html'' ctx)
           \<and> map_of ctx ''gameplan_tasks''
               = Some (CGameplanTasks (GameplanTask_query_ordered uid (store w))))"
    by (simp add: show_user_tasks_and_gameplan_def Let_def)
  show ?thesis using a b c by blast
qed

theorem gameplan_listing_ascending_witness:
  "GameplanTask_query_ordered (Some 1) two_slot_db = [coffee_slot, shower_slot]
   \<and> ascending_by_order [coffee_slot, shower_slot]
   \<and> gp_order coffee_slot = Some 1 \<and> gp_order shower_slot = Some 2
   \<and> (\<exists>ctx. fst (show_user_tasks_and_gameplan (logged_in_world 1 two_slot_db))
               = Inr (Render_template ''dashboard.html'' ctx)
           \<and> map_of ctx ''gameplan_tasks'' = Some (CGameplanTasks [coffee_slot, shower_slot]))"
proof -
  have q: "GameplanTask_query_ordered (Some 1) two_slot_db = [coffee_slot, shower_slot]"
    by (simp add: GameplanTask_query_ordered_def two_slot_db_simps shower_slot_def
        coffee_slot_def order_key_def)
  have h: "session (logged_in_world 1 two_slot_db) ''user'' = Some (Some 1)
      \<and> User_query_get (Some 1) (store (logged_in_world 1 two_slot_db)) = Some alice"
    by (simp add: world_simps User_query_get_def two_slot_db_simps alice_def)
  show ?thesis
    using gameplan_listing_ascending
      [of "Some 1" two_slot_db "logged_in_world 1 two_slot_db" alice] q h
    by (simp add: world_simps shower_slot_def coffee_slot_def)
qed

subsection \<open>Removing a gameplan entry\<close>

lemma filter_key_remove1:
  "distinct (map f xs) \<Longrightarrow> x \<in> set xs \<Longrightarrow> filter (\<lambda>r. f r \<noteq> f x) xs = remove1 x xs"
proof (induction xs)
  case Nil
  then show ?case by simp
next
  case (Cons y ys)
  show ?case
  proof (cases "y = x")
    case True
    then have "\<forall>r \<in> set ys. f r \<noteq> f x" using Cons.prems(1) by (auto simp: image_iff)
    then have "filter (\<lambda>r. f r \<noteq> f x) ys = ys" by (simp add: filter_id_conv)
    then show ?thesis using True by simp
  next
    case False
    then have "f y \<noteq> f x" using Cons.prems by auto
    then show ?thesis using Cons False by auto
  qed
qed

lemma find_key:
  "distinct (map f xs) \<Longrightarrow> x \<in> set xs \<Longrightarrow> f x = i \<Longrightarrow> find (\<lambda>y. f y = i) xs = Some x"
  using find_unique_key [of f xs x] by auto

text \<open>
  Claim C9: a gameplan-removal request that names a task in the gameplan deletes exactly
  the GameplanTask row with that task id (primary keys being distinct); the Task row it
  refers to, every other table, the session and the flashed messages are unchanged.
\<close>

theorem gameplan_removal_frame:
  "read_int cv ident = Inr i \<Longrightarrow> g \<in> set (gameplan_tasks (store w)) \<Longrightarrow> gp_task_id g = i \<Longrightarrow>
   distinct (map gp_task_id (gameplan_tasks (store w))) \<Longrightarrow>
     delete_task_from_gameplan cv ident w
       = (Inr (Redirect ''/dashboard''),
          w\<lparr>store := (store w)\<lparr>gameplan_tasks := remove1 g (gameplan_tasks (store w))\<rparr>\<rparr>)
     \<and> g \<notin> set (remove1 g (gameplan_tasks (store w)))
     \<and> length (remove1 g (gameplan_tasks (store w))) + 1 = length (gameplan_tasks (store w))
     \<and> tasks (store (snd (delete_task_from_gameplan cv ident w))) = tasks (store w)"
proof -
  assume p: "read_int cv ident = Inr i" and m: "g \<in> set (gameplan_tasks (store w))"
    and k: "gp_task_id g = i" and d: "distinct (map gp_task_id (gameplan_tasks (store w)))"
  have f: "find (\<lambda>y. gp_task_id y = i) (gameplan_tasks (store w)) = Some g"
    using d m k by (rule find_key)
  have r: "filter (\<lambda>r. gp_task_id r \<noteq> gp_task_id g) (gameplan_tasks (store w))
      = remove1 g (gameplan_tasks (store w))"
    using d m by (rule filter_key_remove1)
  have e: "delete_task_from_gameplan cv ident w
       = (Inr (Redirect ''/dashboard''),
          w\<lparr>store := (store w)\<lparr>gameplan_tasks := remove1 g (gameplan_tasks (store w))\<rparr>\<rparr>)"
    by (simp add: delete_task_from_gameplan_def GameplanTask_query_get_def p f
        session_delete_gameplan_task_def r)
  have dd: "distinct (gameplan_tasks (store w))" using d by (simp add: distinct_map)
  have n: "g \<notin> set (remove1 g (gameplan_tasks (store w)))" using dd by simp
  have l: "length (remove1 g (gameplan_tasks (store w))) + 1 = length (gameplan_tasks (store w))"
  proof -
    have "0 < length (gameplan_tasks (store w))" using m by (auto simp: length_pos_if_in_set)
    then show ?thesis using m by (simp add: length_remove1)
  qed
  show ?thesis using e n l by simp
qed

theorem gameplan_removal_frame_witness:
  "delete_task_from_gameplan sample_conversions ''1'' (logged_in_world 1 two_slot_db)
     = (Inr (Redirect ''/dashboard''),
        (logged_in_world 1 two_slot_db)\<lparr>store := two_slot_db\<lparr>gameplan_tasks := [coffee_slot]\<rparr>\<rparr>)
   \<and> tasks (store (snd (delete_task_from_gameplan sample_conversions ''1'' (logged_in_world 1 two_slot_db))))
     = [shower, coffee]"
proof -
  let ?w = "logged_in_world 1 two_slot_db"
  have m: "shower_slot \<in> set (gameplan_tasks (store ?w))"
    by (simp add: world_simps two_slot_db_simps)
  have k: "gp_task_id shower_slot = 1" by (simp add: shower_slot_def)
  have d: "distinct (map gp_task_id (gameplan_tasks (store ?w)))"
    by (simp add: world_simps two_slot_db_simps shower_slot_def coffee_slot_def)
  have r: "remove1 shower_slot (gameplan_tasks (store ?w)) = [coffee_slot]"
    by (simp add: world_simps two_slot_db_simps)
  show ?thesis
    using gameplan_removal_frame [OF read_int_1 m k d] r
    by (simp add: world_simps two_slot_db_simps)
qed

lemma tagged_db_simps:
  "users tagged_db = [alice]" "tasks tagged_db = [shower, coffee]"
  "gameplan_tasks tagged_db = [shower_slot]"
  "tasks_categories tagged_db = [coffee_must_do]"
  by (simp_all add: tagged_db_def sample_db_simps)

lemma row_simps:
  "task_id shower = 1" "task_id coffee = 2" "gp_task_id shower_slot = 1"
  "gp_task_id coffee_slot = 2" "tc_task_id coffee_must_do = 2"
  "user_setting_id alice_priority = 1" "us_value alice_priority = ''exercise''"
  "user_id alice = 1"
  by (simp_all add: shower_def coffee_def shower_slot_def coffee_slot_def coffee_must_do_def
      alice_priority_def alice_def)

subsection \<open>Deleting a task\<close>

lemma delete_task_found:
  assumes "read_int cv ident = Inr i" "t \<in> set (tasks (store w))" "task_id t = i"
    "distinct (map task_id (tasks (store w)))"
  shows "Task_query_get cv ident (store w) = Inr (Some t)"
  using find_key [OF assms(4,2,3)] assms(1) by (simp add: Task_query_get_def)

text \<open>
  Claim C3, amended. A delete-task request naming a Task that has a GameplanTask removes
  nothing and flashes the conflict message instead of failing. A request naming a Task
  with no GameplanTask removes exactly that Task row, provided no row of
  \<^verbatim>\<open>tasks_categories\<close> references the task; where one does, the store refuses the
  deletion, the error escapes the handler and nothing is removed.
\<close>

theorem delete_task_conflict_or_removal:
  "read_int cv ident = Inr i \<Longrightarrow> t \<in> set (tasks (store w)) \<Longrightarrow> task_id t = i \<Longrightarrow>
   distinct (map task_id (tasks (store w))) \<Longrightarrow>
     (list_ex (\<lambda>g. gp_task_id g = i) (gameplan_tasks (store w)) \<longrightarrow>
        delete_task_from_task_list cv ident w
          = (Inr (Redirect ''/dashboard''),
             flash ''That task is active in your gameplan! Remove that task from gameplan before deleting from templates.'' w))
     \<and> (\<not> list_ex (\<lambda>g. gp_task_id g = i) (gameplan_tasks (store w))
          \<and> \<not> list_ex (\<lambda>c. tc_task_id c = i) (tasks_categories (store w)) \<longrightarrow>
        delete_task_from_task_list cv ident w
          = (Inr (Redirect ''/dashboard''),
             w\<lparr>store := (store w)\<lparr>tasks := remove1 t (tasks (store w))\<rparr>\<rparr>))
     \<and> (\<not> list_ex (\<lambda>g. gp_task_id g = i) (gameplan_tasks (store w))
          \<and> list_ex (\<lambda>c. tc_task_id c = i) (tasks_categories (store w)) \<longrightarrow>
        delete_task_from_task_list cv ident w = (Inl IntegrityError, w))"
proof -
  assume p: "read_int cv ident = Inr i" and m: "t \<in> set (tasks (store w))"
    and k: "task_id t = i" and d: "distinct (map task_id (tasks (store w)))"
  have q: "Task_query_get cv ident (store w) = Inr (Some t)"
    using p m k d by (rule delete_task_found)
  have "filter (\<lambda>r. task_id r \<noteq> task_id t) (tasks (store w)) = remove1 t (tasks (store w))"
    using d m by (rule filter_key_remove1)
  then have r: "filter (\<lambda>r. task_id r \<noteq> i) (tasks (store w)) = remove1 t (tasks (store w))"
    using k by simp
  show ?thesis
    by (simp add: delete_task_from_task_list_def q session_delete_task_def k r)
qed

theorem delete_task_conflict_or_removal_witness:
  "delete_task_from_task_list sample_conversions ''1'' (logged_in_world 1 sample_db)
     = (Inr (Redirect ''/dashboard''),
        flash ''That task is active in your gameplan! Remove that task from gameplan before deleting from templates.''
          (logged_in_world 1 sample_db))
   \<and> delete_task_from_task_list sample_conversions ''2'' (logged_in_world 1 sample_db)
     = (Inr (Redirect ''/dashboard''),
        (logged_in_world 1 sample_db)\<lparr>store := sample_db\<lparr>tasks := [shower]\<rparr>\<rparr>)
   \<and> tasks sample_db = [shower, coffee]"
proof -
  let ?w = "logged_in_world 1 sample_db"
  have m1: "shower \<in> set (tasks (store ?w))" and m2: "coffee \<in> set (tasks (store ?w))"
    by (simp_all add: world_simps sample_db_simps)
  have d: "distinct (map task_id (tasks (store ?w)))"
    by (simp add: world_simps sample_db_simps row_simps)
  have g1: "list_ex (\<lambda>g. gp_task_id g = 1) (gameplan_tasks (store ?w))"
    by (simp add: world_simps sample_db_simps row_simps)
  have g2: "\<not> list_ex (\<lambda>g. gp_task_id g = 2) (gameplan_tasks (store ?w))"
    "\<not> list_ex (\<lambda>c. tc_task_id c = 2) (tasks_categories (store ?w))"
    by (simp_all add: world_simps sample_db_simps row_simps)
  have r: "remove1 coffee (tasks (store ?w)) = [shower]"
    by (simp add: world_simps sample_db_simps shower_def coffee_def)
  show ?thesis
    using delete_task_conflict_or_removal [OF read_int_1 m1 _ d]
      delete_task_conflict_or_removal [OF read_int_2 m2 _ d] g1 g2 r
    by (simp add: row_simps world_simps sample_db_simps)
qed

text \<open>
  Claim C3 as stated fails: task 2 has no GameplanTask, but a TaskCategory row refers to
  it, and the request to delete it ends in \<^verbatim>\<open>IntegrityError\<close> with the row in place.
\<close>

theorem delete_task_with_category_counterexample:
  "find (\<lambda>t. task_id t = 2) (tasks tagged_db) = Some coffee
   \<and> \<not> list_ex (\<lambda>g. gp_task_id g = 2) (gameplan_tasks tagged_db)
   \<and> delete_task_from_task_list sample_conversions ''2'' (logged_in_world 1 tagged_db)
       = (Inl IntegrityError, logged_in_world 1 tagged_db)"
  by (simp add: delete_task_from_task_list_def Task_query_get_def read_int_2
      session_delete_task_def world_simps tagged_db_simps row_simps)

subsection \<open>Deleting what is not there\<close>

lemma find_no_row: "\<not> list_ex P xs \<Longrightarrow> find P xs = None"
  by (simp add: find_None_iff list_ex_iff)

text \<open>
  Claim C5, amended. A delete request (task template or gameplan entry) whose id matches
  no row does not recover. Where the id is read as an integer that no row has, the
  lookup yields \<^verbatim>\<open>None\<close> and deleting \<^verbatim>\<open>None\<close> raises
  \<^verbatim>\<open>UnmappedInstanceError\<close>; where the driver or the store refuses to read the id,
  the exception of that refusal is raised. Neither handler catches either (the task
  handler catches \<^verbatim>\<open>AssertionError\<close> alone): the exception escapes, no message is
  flashed and nothing stored changes.
\<close>

theorem delete_missing_row_propagates:
  "(read_int cv ident = Inl e \<and> e \<noteq> AssertionError \<longrightarrow>
      delete_task_from_task_list cv ident w = (Inl e, w))
   \<and> (read_int cv ident = Inl e \<longrightarrow>
      delete_task_from_gameplan cv ident w = (Inl e, w))
   \<and> (read_int cv ident = Inr i \<and> \<not> list_ex (\<lambda>t. task_id t = i) (tasks (store w)) \<longrightarrow>
        delete_task_from_task_list cv ident w = (Inl UnmappedInstanceError, w))
   \<and> (read_int cv ident = Inr i \<and> \<not> list_ex (\<lambda>g. gp_task_id g = i) (gameplan_tasks (store w)) \<longrightarrow>
        delete_task_from_gameplan cv ident w = (Inl UnmappedInstanceError, w))"
  by (simp add: delete_task_from_task_list_def delete_task_from_gameplan_def Task_query_get_def
      GameplanTask_query_get_def session_delete_task_def session_delete_gameplan_task_def
      find_no_row)

theorem delete_missing_row_propagates_witness:
  "delete_task_from_task_list sample_conversions ''7'' (logged_in_world 1 sample_db)
     = (Inl UnmappedInstanceError, logged_in_world 1 sample_db)
   \<and> delete_task_from_gameplan sample_conversions ''7'' (logged_in_world 1 sample_db)
     = (Inl UnmappedInstanceError, logged_in_world 1 sample_db)
   \<and> delete_task_from_task_list sample_conversions ''abc'' (logged_in_world 1 sample_db)
     = (Inl DataError, logged_in_world 1 sample_db)
   \<and> delete_task_from_gameplan sample_conversions ''abc'' (logged_in_world 1 sample_db)
     = (Inl DataError, logged_in_world 1 sample_db)"
proof -
  let ?w = "logged_in_world 1 sample_db"
  have n: "\<not> list_ex (\<lambda>t. task_id t = 7) (tasks (store ?w))"
    "\<not> list_ex (\<lambda>g. gp_task_id g = 7) (gameplan_tasks (store ?w))"
    by (simp_all add: world_simps sample_db_simps row_simps)
  show ?thesis
    using delete_missing_row_propagates
        [where cv = sample_conversions and ident = "''7''" and w = ?w and i = 7
           and e = DataError]
      delete_missing_row_propagates
        [where cv = sample_conversions and ident = "''abc''" and w = ?w and i = 0
           and e = DataError]
      n read_int_7 read_int_abc
    by simp
qed

text \<open>
  Claim C5 as stated fails: no task has id 7, and the request to delete it ends in an
  exception that escapes the handler, not in a response.
\<close>

theorem delete_missing_task_counterexample:
  "find (\<lambda>t. task_id t = 7) (tasks sample_db) = None
   \<and> delete_task_from_task_list sample_conversions ''7'' (logged_in_world 1 sample_db)
       = (Inl UnmappedInstanceError, logged_in_world 1 sample_db)"
  by (simp add: delete_task_from_task_list_def Task_query_get_def read_int_7
      session_delete_task_def world_simps sample_db_simps row_simps)


subsection \<open>Updating a setting\<close>

lemma filter_key_single:
  "distinct (map f xs) \<Longrightarrow> x \<in> set xs \<Longrightarrow> f x = i \<Longrightarrow> filter (\<lambda>r. f r = i) xs = [x]"
proof (induction xs)
  case Nil
  then show ?case by simp
next
  case (Cons y ys)
  show ?case
  proof (cases "y = x")
    case True
    then have "\<forall>r \<in> set ys. f r \<noteq> i" using Cons.prems by (auto simp: image_iff)
    then have "filter (\<lambda>r. f r = i) ys = []" by (simp add: filter_empty_conv)
    then show ?thesis using True Cons.prems(3) by simp
  next
    case False
    then have "f y \<noteq> i" using Cons.prems by (auto simp: image_iff)
    then show ?thesis using Cons False by auto
  qed
qed

lemma UserSetting_query_one_found:
  assumes "read_int cv ident = Inr i" "r \<in> set (users_settings (store w))" "user_setting_id r = i"
    "distinct (map user_setting_id (users_settings (store w)))"
  shows "UserSetting_query_one cv ident (store w) = Inr r"
  using filter_key_single [OF assms(4,2,3)] assms(1) by (simp add: UserSetting_query_one_def)

text \<open>
  Claim C10, amended. The update-setting handler reads the new value from the request
  parameter named by the path segment itself: requests that agree on that parameter have
  the same outcome, and a value supplied under that name is the one stored. For a
  request that names an existing UserSetting and supplies no such parameter, the handler
  assigns \<^verbatim>\<open>None\<close>, the store refuses the null in the required column, and the
  request ends in \<^verbatim>\<open>IntegrityError\<close> with the stored value unchanged.
\<close>

theorem update_setting_reads_parameter_named_by_id:
  "(vals ident = vals' ident \<longrightarrow>
      update_user_setting cv ident vals w = update_user_setting cv ident vals' w)
   \<and> (vals ident = None \<and> UserSetting_query_one cv ident (store w) = Inr r \<longrightarrow>
        update_user_setting cv ident vals w = (Inl IntegrityError, w))
   \<and> (vals ident = Some v \<and> length v \<le> 100 \<and> UserSetting_query_one cv ident (store w) = Inr r
        \<and> v \<noteq> us_value r \<longrightarrow>
        update_user_setting cv ident vals w
          = (Inr (Redirect ''/settings''),
             w\<lparr>store := (store w)\<lparr>users_settings :=
                  map (\<lambda>q. if user_setting_id q = user_setting_id r then q\<lparr>us_value := v\<rparr> else q)
                    (users_settings (store w))\<rparr>\<rparr>))"
  by (simp add: update_user_setting_def update_value_def pg_varchar_def)

theorem update_setting_reads_parameter_named_by_id_witness:
  "update_user_setting sample_conversions ''1'' Map.empty (logged_in_world 1 sample_db)
     = (Inl IntegrityError, logged_in_world 1 sample_db)
   \<and> update_user_setting sample_conversions ''1'' sleep_values (logged_in_world 1 sample_db)
     = (Inr (Redirect ''/settings''),
        (logged_in_world 1 sample_db)\<lparr>store := sample_db\<lparr>users_settings :=
           [alice_priority\<lparr>us_value := ''sleep''\<rparr>]\<rparr>\<rparr>)"
proof -
  let ?w = "logged_in_world 1 sample_db"
  have m: "alice_priority \<in> set (users_settings (store ?w))"
    by (simp add: world_simps sample_db_simps)
  have d: "distinct (map user_setting_id (users_settings (store ?w)))"
    by (simp add: world_simps sample_db_simps)
  have q: "UserSetting_query_one sample_conversions ''1'' (store ?w) = Inr alice_priority"
    using read_int_1 m _ d by (rule UserSetting_query_one_found) (simp add: row_simps)
  have v: "sleep_values ''1'' = Some ''sleep''" by (simp add: sleep_values_def)
  show ?thesis
    using update_setting_reads_parameter_named_by_id
        [where vals = Map.empty and vals' = Map.empty and ident = "''1''" and w = ?w
           and cv = sample_conversions and r = alice_priority and v = "''sleep''"]
      update_setting_reads_parameter_named_by_id
        [where vals = sleep_values and vals' = sleep_values and ident = "''1''" and w = ?w
           and cv = sample_conversions and r = alice_priority and v = "''sleep''"] q v
    by (simp add: row_simps world_simps sample_db_simps)
qed

text \<open>
  Claim C10 as stated fails: user setting 1 holds ``exercise''; after an update request
  with no parameter named \<^verbatim>\<open>1\<close> it still does, the request having ended in
  \<^verbatim>\<open>IntegrityError\<close>.
\<close>

theorem update_setting_absent_parameter_counterexample:
  "users_settings (store (logged_in_world 1 sample_db)) = [alice_priority]
   \<and> us_value alice_priority = ''exercise''
   \<and> update_user_setting sample_conversions ''1'' Map.empty (logged_in_world 1 sample_db)
       = (Inl IntegrityError, logged_in_world 1 sample_db)"
  by (simp add: update_user_setting_def UserSetting_query_one_def read_int_1 update_value_def
      world_simps sample_db_simps row_simps)

end
